theory Spec2Isabelle
  imports Main "HOL-Library.Sublist"
begin

section \<open>Python values, exceptions and results\<close>

text \<open>
  The values the program hands to the database driver or returns from its functions:
  \<open>None\<close>, booleans, integers and strings.
\<close>

datatype pyval = PyNone | PyBool bool | PyInt int | PyStr string

text \<open>
  Every handler of the program is \<^verbatim>\<open>except Error as e\<close>, where \<open>Error\<close> is
  \<^verbatim>\<open>mysql.connector.Error\<close>. An exception is therefore either an instance of that class
  (\<open>DbError\<close>) or of any other class (\<open>OtherError\<close>: \<open>FileNotFoundError\<close>, \<open>ValueError\<close>,
  \<open>AttributeError\<close>, \<open>KeyError\<close>, ...). Both carry the text \<open>str(e)\<close>.
\<close>

datatype exn = DbError string | OtherError string

text \<open>A call returns, raises, or ends the process (\<^verbatim>\<open>exit(n)\<close>).\<close>

datatype 'a result = Return 'a | Raise exn | Exit nat

section \<open>Text helpers of the Python runtime\<close>

text \<open>\<^verbatim>\<open>str(n)\<close> of a natural number: its decimal digits, most significant first.\<close>

definition digit_char :: "nat \<Rightarrow> char" where
  "digit_char d = char_of (48 + d)"

function str_nat :: "nat \<Rightarrow> string" where
  "str_nat n = (if n < 10 then [digit_char n] else str_nat (n div 10) @ [digit_char (n mod 10)])"
  by pat_completeness auto
termination
  by (relation "measure id") auto

declare str_nat.simps [simp del]

definition str_int :: "int \<Rightarrow> string" where
  "str_int i = (if i < 0 then CHR ''-'' # str_nat (nat (- i)) else str_nat (nat i))"

text \<open>\<^verbatim>\<open>sep.join(xs)\<close>.\<close>

fun join :: "string \<Rightarrow> string list \<Rightarrow> string" where
  "join sep [] = []"
| "join sep [x] = x"
| "join sep (x # y # ys) = x @ sep @ join sep (y # ys)"

text \<open>
  \<^verbatim>\<open>s.replace(old, new)\<close>: scanning from the left, every non-overlapping occurrence of
  \<open>old\<close> is replaced by \<open>new\<close>; with an empty \<open>old\<close>, \<open>new\<close> is put before every character
  and at the end.
\<close>

function str_replace :: "string \<Rightarrow> string \<Rightarrow> string \<Rightarrow> string" where
  "str_replace old new [] = (if old = [] then new else [])"
| "str_replace old new (c # cs) =
     (if old = [] then new @ c # str_replace old new cs
      else if prefix old (c # cs) then new @ str_replace old new (drop (length old) (c # cs))
      else c # str_replace old new cs)"
  by pat_completeness auto
termination
  by (relation "measure (\<lambda>(old, new, s). length s)") auto

section \<open>Cell values of the spreadsheet\<close>

text \<open>
  A \<^verbatim>\<open>pd.Timestamp\<close>: calendar fields, the sub-second part in nanoseconds, and the UTC
  offset text of a timezone-aware value.
\<close>

record timestamp =
  ts_year :: nat
  ts_month :: nat
  ts_day :: nat
  ts_hour :: nat
  ts_minute :: nat
  ts_second :: nat
  ts_nanos :: nat
  ts_tz :: "string option"


text \<open>
  What a cell of a row can be: \<open>None\<close>, the float NaN, \<open>pd.NaT\<close>, a \<open>pd.Timestamp\<close>, a
  string, an integer, a boolean, or any other object (a finite float, a \<open>datetime.time\<close>,
  ...), which is carried as the text \<open>str\<close> gives for it.
\<close>

datatype cell =
    CNone
  | CNaN
  | CNaT
  | CTimestamp timestamp
  | CStr string
  | CInt int
  | CBool bool
  | COther string

text \<open>\<^verbatim>\<open>pd.isna(val)\<close> on a scalar.\<close>

fun pd_isna :: "cell \<Rightarrow> bool" where
  "pd_isna CNone = True"
| "pd_isna CNaN = True"
| "pd_isna CNaT = True"
| "pd_isna _ = False"


text \<open>Zero-padded fields of \<^verbatim>\<open>strftime\<close>: \<^verbatim>\<open>%m %d %H %M %S\<close> have width 2.\<close>

definition zero_pad :: "nat \<Rightarrow> nat \<Rightarrow> string" where
  "zero_pad w n = replicate (w - length (str_nat n)) CHR ''0'' @ str_nat n"

text \<open>
  \<^verbatim>\<open>val.strftime('%Y-%m-%d %H:%M:%S')\<close>. \<^verbatim>\<open>%Y\<close> is the year in decimal, which the C
  library does not pad.
\<close>

definition strftime_Ymd_HMS :: "timestamp \<Rightarrow> string" where
  "strftime_Ymd_HMS ts =
     str_nat (ts_year ts) @ ''-'' @ zero_pad 2 (ts_month ts) @ ''-'' @ zero_pad 2 (ts_day ts)
     @ '' '' @ zero_pad 2 (ts_hour ts) @ '':'' @ zero_pad 2 (ts_minute ts)
     @ '':'' @ zero_pad 2 (ts_second ts)"

text \<open>
  \<^verbatim>\<open>str(val)\<close> of a cell. For a timestamp it is the ISO form with a space separator: the
  year padded to four digits, and after the seconds the fraction of a second (six digits,
  or nine when there are nanoseconds) and the UTC offset.
\<close>

definition str_Timestamp :: "timestamp \<Rightarrow> string" where
  "str_Timestamp ts =
     zero_pad 4 (ts_year ts) @ ''-'' @ zero_pad 2 (ts_month ts) @ ''-'' @ zero_pad 2 (ts_day ts)
     @ '' '' @ zero_pad 2 (ts_hour ts) @ '':'' @ zero_pad 2 (ts_minute ts)
     @ '':'' @ zero_pad 2 (ts_second ts)
     @ (if ts_nanos ts = 0 then []
        else if ts_nanos ts mod 1000 = 0 then CHR ''.'' # zero_pad 6 (ts_nanos ts div 1000)
        else CHR ''.'' # zero_pad 9 (ts_nanos ts))
     @ (case ts_tz ts of None \<Rightarrow> [] | Some off \<Rightarrow> off)"

fun py_str :: "cell \<Rightarrow> string" where
  "py_str CNone = ''None''"
| "py_str CNaN = ''nan''"
| "py_str CNaT = ''NaT''"
| "py_str (CTimestamp ts) = str_Timestamp ts"
| "py_str (CStr s) = s"
| "py_str (CInt i) = str_int i"
| "py_str (CBool b) = (if b then ''True'' else ''False'')"
| "py_str (COther s) = s"

section \<open>The row value converter\<close>

text \<open>
  \<^verbatim>\<open>
  def convert_timestamp(val):
      if pd.isna(val):
          return None
      elif isinstance(val, pd.Timestamp):
          return val.strftime('%Y-%m-%d %H:%M:%S')
      else:
          return str(val)
  \<close>
\<close>

fun convert_timestamp :: "cell \<Rightarrow> pyval" where
  "convert_timestamp val =
     (if pd_isna val then PyNone
      else case val of
             CTimestamp ts \<Rightarrow> PyStr (strftime_Ymd_HMS ts)
           | _ \<Rightarrow> PyStr (py_str val))"

declare convert_timestamp.simps [simp del]

section \<open>Column names\<close>

text \<open>
  A column label of the data frame: a string, or another object (a number or a date in
  the header row), which has no string \<open>replace\<close> method; it carries its \<open>str\<close> text.
\<close>

datatype header = HStr string | HOther string

fun header_str :: "header \<Rightarrow> string" where
  "header_str (HStr s) = s"
| "header_str (HOther s) = s"

text \<open>
  The body of the comprehension
  \<^verbatim>\<open>f"`{col.replace(' ', '_').replace('-', '_').replace('.', '_')}`"\<close> on a string.
\<close>

definition sanitize :: "string \<Rightarrow> string" where
  "sanitize col =
     ''`'' @ str_replace ''.'' ''_'' (str_replace ''-'' ''_'' (str_replace '' '' ''_'' col)) @ ''`''"

text \<open>
  The comprehension over \<^verbatim>\<open>df.columns\<close>, left to right: a label that is not a string
  raises (\<open>AttributeError\<close> or \<open>TypeError\<close>) at the first such label.
\<close>

fun sanitize_columns :: "header list \<Rightarrow> exn + string list" where
  "sanitize_columns [] = Inr []"
| "sanitize_columns (HStr s # hs) =
     (case sanitize_columns hs of Inl e \<Rightarrow> Inl e | Inr cs \<Rightarrow> Inr (sanitize s # cs))"
| "sanitize_columns (HOther s # hs) = Inl (OtherError (''no string replace method: '' @ s))"

section \<open>The world of a run\<close>

text \<open>
  The data frame \<^verbatim>\<open>pd.read_excel\<close> returns: the column labels and the rows, in file order.
\<close>

record dataframe =
  df_columns :: "header list"
  df_rows :: "cell list list"


text \<open>The dictionary \<^verbatim>\<open>read_config\<close> returns.\<close>

record config =
  cfg_host :: string
  cfg_database :: string
  cfg_user :: string
  cfg_password :: string
  cfg_table :: string
  cfg_excel_file :: string

text \<open>
  What a run does to the outside, in the order it does it: a record written to the log
  file, a line printed, the summary \<^verbatim>\<open>df.info()\<close> prints, a file written, and a call of
  the database driver (recorded when it is made, whether it then raises or not).
\<close>

datatype level = INFO | ERROR

datatype call =
    Connect string string string string
  | Cursor
  | Execute string "pyval list"
  | Commit
  | Close

datatype event =
    Log level string
  | Print string
  | PrintInfo dataframe
  | FileWrite string string
  | DbCall call

text \<open>
  The environment of a run. \<open>now_stamp\<close> is
  \<^verbatim>\<open>datetime.now().strftime('%Y%m%d_%H%M%S')\<close> at import; \<open>path_exists\<close> is
  \<^verbatim>\<open>os.path.exists\<close>; \<open>write_file\<close> tells whether writing a file raises; \<open>parse_config\<close> is
  the parse of the configuration file and the six key look-ups; \<open>read_excel\<close> is
  \<^verbatim>\<open>pd.read_excel\<close>; \<open>dtype_of\<close> is the text of \<^verbatim>\<open>df[col].dtype\<close>. The file functions
  raise exceptions of classes other than the driver's, so their failure is the text of the
  exception. \<open>db\<close> is the driver and the server behind it: given what has happened so far
  and the call being made, it says which exception the call raises, if any;
  \<open>is_connected\<close> is \<^verbatim>\<open>connection.is_connected()\<close>.
\<close>

record env =
  now_stamp :: string
  path_exists :: "string \<Rightarrow> bool"
  write_file :: "string \<Rightarrow> string \<Rightarrow> string option"
  parse_config :: "string \<Rightarrow> string + config"
  read_excel :: "string \<Rightarrow> string + dataframe"
  dtype_of :: "dataframe \<Rightarrow> header \<Rightarrow> string"
  db :: "event list \<Rightarrow> call \<Rightarrow> exn option"
  is_connected :: "event list \<Rightarrow> bool"

text \<open>
  \<^verbatim>\<open>
  logging.basicConfig(
      filename=f"excel_to_mysql_{datetime.now().strftime('%Y%m%d_%H%M%S')}.log",
      level=logging.INFO, format='%(asctime)s - %(levelname)s - %(message)s')
  \<close>
  Every \<open>Log\<close> event appends a record to this file.
\<close>

definition log_filename :: "env \<Rightarrow> string" where
  "log_filename E = ''excel_to_mysql_'' @ now_stamp E @ ''.log''"

text \<open>The files a trace creates or writes to, in order.\<close>

fun written_paths :: "env \<Rightarrow> event list \<Rightarrow> string list" where
  "written_paths E [] = []"
| "written_paths E (Log l m # es) = log_filename E # written_paths E es"
| "written_paths E (FileWrite p c # es) = p # written_paths E es"
| "written_paths E (e # es) = written_paths E es"

text \<open>The driver calls of a trace, and the statements among them with their parameters.\<close>

fun db_calls :: "event list \<Rightarrow> call list" where
  "db_calls [] = []"
| "db_calls (DbCall c # es) = c # db_calls es"
| "db_calls (e # es) = db_calls es"

fun executed :: "event list \<Rightarrow> (string \<times> pyval list) list" where
  "executed [] = []"
| "executed (DbCall (Execute q ps) # es) = (q, ps) # executed es"
| "executed (e # es) = executed es"

text \<open>One call of the driver: the call is recorded, and it raises or not.\<close>

definition db_call :: "env \<Rightarrow> call \<Rightarrow> event list \<Rightarrow> exn option \<times> event list" where
  "db_call E c tr = (db E tr c, tr @ [DbCall c])"

section \<open>Configuration loader\<close>

text \<open>
  What \<^verbatim>\<open>config.write(f)\<close> writes for the two sections of \<^verbatim>\<open>create_default_config\<close>:
  a \<^verbatim>\<open>[section]\<close> line, one \<^verbatim>\<open>key = value\<close> line per entry, and an empty line.
\<close>

definition write_section :: "string \<Rightarrow> (string \<times> string) list \<Rightarrow> string" where
  "write_section name kvs =
     ''['' @ name @ '']'' @ [CHR 0x0A]
     @ concat (map (\<lambda>(k, v). k @ '' = '' @ v @ [CHR 0x0A]) kvs) @ [CHR 0x0A]"

definition default_config_text :: string where
  "default_config_text =
     write_section ''DATABASE''
       [(''host'', ''localhost''), (''database'', ''your_database''), (''user'', ''your_username''),
        (''password'', ''your_password''), (''table'', ''form_responses'')]
     @ write_section ''FILES'' [(''excel_file'', ''google_form_responses.xlsx'')]"

text \<open>
  \<^verbatim>\<open>
  def create_default_config(config_file):
      config = configparser.ConfigParser()
      config['DATABASE'] = {...}
      config['FILES'] = {...}
      with open(config_file, 'w') as f:
          config.write(f)
  \<close>
\<close>

definition create_default_config :: "env \<Rightarrow> string \<Rightarrow> event list \<Rightarrow> unit result \<times> event list" where
  "create_default_config E config_file tr =
     (case write_file E config_file default_config_text of
        Some msg \<Rightarrow> (Raise (OtherError msg), tr)
      | None \<Rightarrow> (Return (), tr @ [FileWrite config_file default_config_text]))"

text \<open>
  \<^verbatim>\<open>
  def read_config(config_file='config.ini'):
      if not os.path.exists(config_file):
          create_default_config(config_file)
          logging.info(f"Created default config file: {config_file}")
          print(f"Created default config file: {config_file}")
          print("Please update the config file with your database credentials and try again.")
          exit(1)
      config = configparser.ConfigParser()
      config.read(config_file)
      return {'host': config['DATABASE']['host'], ...}
  \<close>
\<close>

definition read_config :: "env \<Rightarrow> string \<Rightarrow> event list \<Rightarrow> config result \<times> event list" where
  "read_config E config_file tr =
     (if \<not> path_exists E config_file then
        (case create_default_config E config_file tr of
           (Return u, tr1) \<Rightarrow>
             (Exit 1,
              tr1 @ [Log INFO (''Created default config file: '' @ config_file),
                     Print (''Created default config file: '' @ config_file),
                     Print ''Please update the config file with your database credentials and try again.''])
         | (Raise e, tr1) \<Rightarrow> (Raise e, tr1)
         | (Exit n, tr1) \<Rightarrow> (Exit n, tr1))
      else
        (case parse_config E config_file of
           Inl msg \<Rightarrow> (Raise (OtherError msg), tr)
         | Inr cfg \<Rightarrow> (Return cfg, tr)))"

section \<open>Database connector\<close>

text \<open>The connection object; a run has one.\<close>

datatype connection = Connection

text \<open>
  \<^verbatim>\<open>
  def connect_to_database(config):
      try:
          connection = mysql.connector.connect(host=config['host'], database=config['database'],
                                               user=config['user'], password=config['password'])
          if connection.is_connected():
              logging.info("Connected to MySQL database")
              return connection
      except Error as e:
          logging.error(f"Error connecting to MySQL database: {e}")
          print(f"Error connecting to MySQL database: {e}")
          return None
  \<close>
  When \<open>is_connected()\<close> is false the function falls off its end and returns \<open>None\<close>.
\<close>

definition connect_to_database ::
  "env \<Rightarrow> config \<Rightarrow> event list \<Rightarrow> connection option result \<times> event list" where
  "connect_to_database E cfg tr =
     (case db_call E (Connect (cfg_host cfg) (cfg_database cfg) (cfg_user cfg) (cfg_password cfg)) tr of
        (Some (DbError m), tr1) \<Rightarrow>
          (Return None,
           tr1 @ [Log ERROR (''Error connecting to MySQL database: '' @ m),
                  Print (''Error connecting to MySQL database: '' @ m)])
      | (Some (OtherError m), tr1) \<Rightarrow> (Raise (OtherError m), tr1)
      | (None, tr1) \<Rightarrow>
          (if is_connected E tr1
           then (Return (Some Connection), tr1 @ [Log INFO ''Connected to MySQL database''])
           else (Return None, tr1)))"

section \<open>Schema synchronizer\<close>

text \<open>
  \<^verbatim>\<open>
  create_table_sql = f"CREATE TABLE IF NOT EXISTS {table_name} (id INT AUTO_INCREMENT PRIMARY KEY, "
  create_table_sql += ", ".join([f"{col} TEXT" for col in columns])
  create_table_sql += ")"
  \<close>
\<close>

definition create_table_sql :: "string \<Rightarrow> string list \<Rightarrow> string" where
  "create_table_sql table_name columns =
     ''CREATE TABLE IF NOT EXISTS '' @ table_name @ '' (id INT AUTO_INCREMENT PRIMARY KEY, ''
     @ join '', '' (map (\<lambda>col. col @ '' TEXT'') columns) @ '')''"

text \<open>
  The statements of the \<^verbatim>\<open>try\<close> block after the column names are known: cursor,
  execute, commit, log, return. An exception leaves the block at the call that raises it.
\<close>

definition create_table_calls ::
  "env \<Rightarrow> dataframe \<Rightarrow> string list \<Rightarrow> string \<Rightarrow> event list
     \<Rightarrow> (exn + dataframe \<times> string list) \<times> event list" where
  "create_table_calls E df columns table_name tr =
     (case db_call E Cursor tr of
        (Some e, tr1) \<Rightarrow> (Inl e, tr1)
      | (None, tr1) \<Rightarrow>
          (case db_call E (Execute (create_table_sql table_name columns) []) tr1 of
             (Some e, tr2) \<Rightarrow> (Inl e, tr2)
           | (None, tr2) \<Rightarrow>
               (case db_call E Commit tr2 of
                  (Some e, tr3) \<Rightarrow> (Inl e, tr3)
                | (None, tr3) \<Rightarrow>
                    (Inr (df, columns),
                     tr3 @ [Log INFO (''Table '' @ table_name @ '' created or already exists'')]))))"

text \<open>
  The whole \<^verbatim>\<open>try\<close> block:
  \<^verbatim>\<open>
  df = pd.read_excel(excel_file)
  logging.info(f"DataFrame info: {df.info()}")
  columns = [f"`{col.replace(' ', '_').replace('-', '_').replace('.', '_')}`" for col in df.columns]
  ...
  \<close>
  \<^verbatim>\<open>df.info()\<close> prints its summary and returns \<open>None\<close>.
\<close>

definition create_table_body ::
  "env \<Rightarrow> string \<Rightarrow> string \<Rightarrow> event list \<Rightarrow> (exn + dataframe \<times> string list) \<times> event list" where
  "create_table_body E excel_file table_name tr =
     (case read_excel E excel_file of
        Inl msg \<Rightarrow> (Inl (OtherError msg), tr)
      | Inr df \<Rightarrow>
          (let tr1 = tr @ [PrintInfo df, Log INFO ''DataFrame info: None''] in
           case sanitize_columns (df_columns df) of
             Inl e \<Rightarrow> (Inl e, tr1)
           | Inr columns \<Rightarrow> create_table_calls E df columns table_name tr1))"

text \<open>
  \<^verbatim>\<open>
  def create_table_if_not_exists(connection, excel_file, table_name):
      try:
          ...
          return df, columns
      except Error as e:
          logging.error(f"Error creating table: {e}")
          print(f"Error creating table: {e}")
          return None, None
  \<close>
  The pair \<^verbatim>\<open>(df, columns)\<close> is \<open>Some (df, columns)\<close> and the pair
  \<^verbatim>\<open>(None, None)\<close> is \<open>None\<close>: no other pair is returned.
\<close>

definition create_table_if_not_exists ::
  "env \<Rightarrow> string \<Rightarrow> string \<Rightarrow> event list
     \<Rightarrow> (dataframe \<times> string list) option result \<times> event list" where
  "create_table_if_not_exists E excel_file table_name tr =
     (case create_table_body E excel_file table_name tr of
        (Inr r, tr1) \<Rightarrow> (Return (Some r), tr1)
      | (Inl (DbError m), tr1) \<Rightarrow>
          (Return None,
           tr1 @ [Log ERROR (''Error creating table: '' @ m), Print (''Error creating table: '' @ m)])
      | (Inl (OtherError m), tr1) \<Rightarrow> (Raise (OtherError m), tr1))"

section \<open>Row inserter\<close>

text \<open>
  \<^verbatim>\<open>
  placeholders = ", ".join(["%s"] * len(columns))
  insert_sql = f"INSERT INTO {table_name} ({', '.join(columns)}) VALUES ({placeholders})"
  \<close>
\<close>

definition placeholders :: "string list \<Rightarrow> string" where
  "placeholders columns = join '', '' (replicate (length columns) ''%s'')"

definition insert_sql :: "string \<Rightarrow> string list \<Rightarrow> string" where
  "insert_sql table_name columns =
     ''INSERT INTO '' @ table_name @ '' ('' @ join '', '' columns @ '') VALUES (''
     @ placeholders columns @ '')''"

text \<open>
  The loop
  \<^verbatim>\<open>
  records = 0
  for _, row in df.iterrows():
      values = [convert_timestamp(val) for val in row]
      cursor.execute(insert_sql, tuple(values))
      records += 1
  \<close>
  over the rows that remain, with the statement text and the count so far.
\<close>

fun insert_rows ::
  "env \<Rightarrow> string \<Rightarrow> cell list list \<Rightarrow> nat \<Rightarrow> event list \<Rightarrow> (exn + nat) \<times> event list" where
  "insert_rows E q [] records tr = (Inr records, tr)"
| "insert_rows E q (row # rows) records tr =
     (case db_call E (Execute q (map convert_timestamp row)) tr of
        (Some e, tr1) \<Rightarrow> (Inl e, tr1)
      | (None, tr1) \<Rightarrow> insert_rows E q rows (records + 1) tr1)"

text \<open>The \<^verbatim>\<open>try\<close> block of \<^verbatim>\<open>insert_data\<close>.\<close>

definition insert_data_body ::
  "env \<Rightarrow> dataframe \<Rightarrow> string list \<Rightarrow> string \<Rightarrow> event list \<Rightarrow> (exn + pyval) \<times> event list" where
  "insert_data_body E df columns table_name tr =
     (case db_call E Cursor tr of
        (Some e, tr1) \<Rightarrow> (Inl e, tr1)
      | (None, tr1) \<Rightarrow>
          (case insert_rows E (insert_sql table_name columns) (df_rows df) 0 tr1 of
             (Inl e, tr2) \<Rightarrow> (Inl e, tr2)
           | (Inr records, tr2) \<Rightarrow>
               (case db_call E Commit tr2 of
                  (Some e, tr3) \<Rightarrow> (Inl e, tr3)
                | (None, tr3) \<Rightarrow>
                    (Inr (PyBool True),
                     tr3 @ [Log INFO (''Successfully inserted '' @ str_nat records
                                      @ '' records into '' @ table_name),
                            Print (''Successfully inserted '' @ str_nat records
                                   @ '' records into '' @ table_name)]))))"

text \<open>
  \<^verbatim>\<open>
  def insert_data(connection, df, columns, table_name):
      try:
          ...
          connection.commit()
          logging.info(f"Successfully inserted {records} records into {table_name}")
          print(f"Successfully inserted {records} records into {table_name}")
          return True
      except Error as e:
          logging.error(f"Error inserting data: {e}")
          print(f"Error inserting data: {e}")
          return False
  \<close>
\<close>

definition insert_data ::
  "env \<Rightarrow> dataframe \<Rightarrow> string list \<Rightarrow> string \<Rightarrow> event list \<Rightarrow> pyval result \<times> event list" where
  "insert_data E df columns table_name tr =
     (case insert_data_body E df columns table_name tr of
        (Inr v, tr1) \<Rightarrow> (Return v, tr1)
      | (Inl (DbError m), tr1) \<Rightarrow>
          (Return (PyBool False),
           tr1 @ [Log ERROR (''Error inserting data: '' @ m), Print (''Error inserting data: '' @ m)])
      | (Inl (OtherError m), tr1) \<Rightarrow> (Raise (OtherError m), tr1))"

section \<open>Orchestration\<close>

text \<open>Truth value of a Python value, as \<^verbatim>\<open>if success:\<close> takes it.\<close>

fun truthy :: "pyval \<Rightarrow> bool" where
  "truthy PyNone = False"
| "truthy (PyBool b) = b"
| "truthy (PyInt i) = (i \<noteq> 0)"
| "truthy (PyStr s) = (s \<noteq> [])"

text \<open>
  The end of \<^verbatim>\<open>main\<close>, from \<^verbatim>\<open>connection.close()\<close> after the insert:
  \<^verbatim>\<open>
  connection.close()
  logging.info("Database connection closed")
  if success:
      print("Data transfer completed successfully!")
      logging.info("Data transfer completed successfully")
  else:
      print("Data transfer failed. Check log file for details.")
      logging.error("Data transfer failed")
  \<close>
\<close>

definition main_finish :: "env \<Rightarrow> pyval \<Rightarrow> event list \<Rightarrow> unit result \<times> event list" where
  "main_finish E success tr =
     (case db_call E Close tr of
        (Some e, tr1) \<Rightarrow> (Raise e, tr1)
      | (None, tr1) \<Rightarrow>
          (Return (),
           tr1 @ [Log INFO ''Database connection closed'']
           @ (if truthy success
              then [Print ''Data transfer completed successfully!'',
                    Log INFO ''Data transfer completed successfully'']
              else [Print ''Data transfer failed. Check log file for details.'',
                    Log ERROR ''Data transfer failed''])))"

text \<open>
  \<^verbatim>\<open>main\<close> from the call of \<^verbatim>\<open>create_table_if_not_exists\<close> on, with the connection
  open:
  \<^verbatim>\<open>
  df, columns = create_table_if_not_exists(connection, config['excel_file'], config['table'])
  if df is None:
      connection.close()
      return
  logging.info("DataFrame data types:")
  for col in df.columns:
      logging.info(f"{col}: {df[col].dtype}")
  success = insert_data(connection, df, columns, config['table'])
  ...
  \<close>
\<close>

definition main_connected :: "env \<Rightarrow> config \<Rightarrow> event list \<Rightarrow> unit result \<times> event list" where
  "main_connected E cfg tr =
     (case create_table_if_not_exists E (cfg_excel_file cfg) (cfg_table cfg) tr of
        (Raise e, tr1) \<Rightarrow> (Raise e, tr1)
      | (Exit n, tr1) \<Rightarrow> (Exit n, tr1)
      | (Return None, tr1) \<Rightarrow>
          (case db_call E Close tr1 of
             (Some e, tr2) \<Rightarrow> (Raise e, tr2)
           | (None, tr2) \<Rightarrow> (Return (), tr2))
      | (Return (Some (df, columns)), tr1) \<Rightarrow>
          (let tr2 = tr1 @ Log INFO ''DataFrame data types:''
                       # map (\<lambda>col. Log INFO (header_str col @ '': '' @ dtype_of E df col))
                           (df_columns df) in
           case insert_data E df columns (cfg_table cfg) tr2 of
             (Raise e, tr3) \<Rightarrow> (Raise e, tr3)
           | (Exit n, tr3) \<Rightarrow> (Exit n, tr3)
           | (Return success, tr3) \<Rightarrow> main_finish E success tr3))"

text \<open>
  \<^verbatim>\<open>
  def main():
      print("Starting Excel to MySQL data transfer...")
      logging.info("Starting Excel to MySQL data transfer")
      config = read_config()
      connection = connect_to_database(config)
      if not connection:
          return
      ...
  \<close>
\<close>

definition main :: "env \<Rightarrow> event list \<Rightarrow> unit result \<times> event list" where
  "main E tr =
     (case read_config E ''config.ini''
             (tr @ [Print ''Starting Excel to MySQL data transfer...'',
                    Log INFO ''Starting Excel to MySQL data transfer'']) of
        (Raise e, tr1) \<Rightarrow> (Raise e, tr1)
      | (Exit n, tr1) \<Rightarrow> (Exit n, tr1)
      | (Return cfg, tr1) \<Rightarrow>
          (case connect_to_database E cfg tr1 of
             (Raise e, tr2) \<Rightarrow> (Raise e, tr2)
           | (Exit n, tr2) \<Rightarrow> (Exit n, tr2)
           | (Return None, tr2) \<Rightarrow> (Return (), tr2)
           | (Return (Some connection), tr2) \<Rightarrow> main_connected E cfg tr2))"

section \<open>The timestamp format\<close>




section \<open>The database server\<close>

text \<open>
  The tables of the server: the name of each table with the text of its column
  definitions. The server reads a statement
  \<^verbatim>\<open>CREATE TABLE IF NOT EXISTS name defs\<close> as: when a table of that name exists, do
  nothing and report success; otherwise create it. A \<^verbatim>\<open>CREATE TABLE name defs\<close> on an
  existing table is rejected. The name ends at the first space. Other statements leave the
  tables as they are.
\<close>

type_synonym tables = "string \<Rightarrow> string option"

definition table_name_of :: "string \<Rightarrow> string" where
  "table_name_of rest = takeWhile (\<lambda>c. c \<noteq> CHR '' '') rest"

definition server_execute :: "string \<Rightarrow> tables \<Rightarrow> exn + tables" where
  "server_execute q T =
     (if prefix ''CREATE TABLE IF NOT EXISTS '' q then
        (let rest = drop (length ''CREATE TABLE IF NOT EXISTS '') q;
             name = table_name_of rest in
         case T name of
           Some d \<Rightarrow> Inr T
         | None \<Rightarrow> Inr (T(name \<mapsto> drop (length name) rest)))
      else if prefix ''CREATE TABLE '' q then
        (let rest = drop (length ''CREATE TABLE '') q;
             name = table_name_of rest in
         case T name of
           Some d \<Rightarrow> Inl (DbError (''1050: Table already exists: '' @ name))
         | None \<Rightarrow> Inr (T(name \<mapsto> drop (length name) rest)))
      else Inr T)"

text \<open>The tables after the statements of a trace, from the tables \<open>T\<close> before it.\<close>

fun server_state :: "tables \<Rightarrow> event list \<Rightarrow> tables" where
  "server_state T [] = T"
| "server_state T (DbCall (Execute q ps) # es) =
     server_state (case server_execute q T of Inl e \<Rightarrow> T | Inr T' \<Rightarrow> T') es"
| "server_state T (e # es) = server_state T es"

text \<open>A driver in front of this server: a statement raises when the server rejects it.\<close>

definition server_db :: "tables \<Rightarrow> event list \<Rightarrow> call \<Rightarrow> exn option" where
  "server_db T0 h c =
     (case c of
        Execute q ps \<Rightarrow>
          (case server_execute q (server_state T0 h) of Inl e \<Rightarrow> Some e | Inr T \<Rightarrow> None)
      | _ \<Rightarrow> None)"

section \<open>Traces of the row inserter\<close>



text \<open>The events of a trace \<open>tr'\<close> that extends \<open>tr\<close>.\<close>

definition new_events :: "event list \<Rightarrow> event list \<Rightarrow> event list" where
  "new_events tr tr' = drop (length tr) tr'"

text \<open>
  The trace of \<^verbatim>\<open>main\<close> up to the open connection: the two start messages, the connect
  call and the log record of the connection.
\<close>

definition connected_trace :: "config \<Rightarrow> event list \<Rightarrow> event list" where
  "connected_trace cfg tr =
     tr @ [Print ''Starting Excel to MySQL data transfer...'',
           Log INFO ''Starting Excel to MySQL data transfer'',
           DbCall (Connect (cfg_host cfg) (cfg_database cfg) (cfg_user cfg) (cfg_password cfg)),
           Log INFO ''Connected to MySQL database'']"

section \<open>Driver calls made in order\<close>

text \<open>
  A function makes its driver calls \<open>cs\<close> one after the other, starting from the trace
  \<open>tr\<close>, and stops at the first call that raises. \<open>history tr cs j\<close> is the trace when call
  number \<open>j\<close> is made (the calls before it have returned). \<open>none_raises\<close> says that every
  call returns; \<open>first_raise E cs tr i e\<close> says that the calls before number \<open>i\<close> return and
  call number \<open>i\<close> raises \<open>e\<close>. \<open>run_calls\<close> makes the calls and gives the exception, if any,
  with the trace.
\<close>

definition history :: "event list \<Rightarrow> call list \<Rightarrow> nat \<Rightarrow> event list" where
  "history tr cs j = tr @ map DbCall (take j cs)"

definition none_raises :: "env \<Rightarrow> call list \<Rightarrow> event list \<Rightarrow> bool" where
  "none_raises E cs tr \<longleftrightarrow>
     list_all (\<lambda>j. db E (history tr cs j) (cs ! j) = None) [0..<length cs]"

definition first_raise :: "env \<Rightarrow> call list \<Rightarrow> event list \<Rightarrow> nat \<Rightarrow> exn \<Rightarrow> bool" where
  "first_raise E cs tr i e \<longleftrightarrow>
     i < length cs \<and>
     list_all (\<lambda>j. db E (history tr cs j) (cs ! j) = None) [0..<i] \<and>
     db E (history tr cs i) (cs ! i) = Some e"

fun run_calls :: "env \<Rightarrow> call list \<Rightarrow> event list \<Rightarrow> exn option \<times> event list" where
  "run_calls E [] tr = (None, tr)"
| "run_calls E (c # cs) tr =
     (case db_call E c tr of
        (Some e, tr1) \<Rightarrow> (Some e, tr1)
      | (None, tr1) \<Rightarrow> run_calls E cs tr1)"

text \<open>
  The driver calls of the schema synchronizer and of the row inserter, and the statement
  with its parameters that the row inserter sends for a row.
\<close>

definition sync_calls :: "string \<Rightarrow> string list \<Rightarrow> call list" where
  "sync_calls table_name columns =
     [Cursor, Execute (create_table_sql table_name columns) [], Commit]"


definition insert_calls :: "string \<Rightarrow> string list \<Rightarrow> dataframe \<Rightarrow> call list" where
  "insert_calls table_name columns df =
     Cursor # map (\<lambda>row. Execute (insert_sql table_name columns) (map convert_timestamp row))
                (df_rows df) @ [Commit]"


section \<open>Example inputs\<close>

text \<open>The timestamp 2024-01-02 03:04:05.000007 at UTC.\<close>

definition ts_example :: timestamp where
  "ts_example = \<lparr>ts_year = 2024, ts_month = 1, ts_day = 2, ts_hour = 3, ts_minute = 4,
                  ts_second = 5, ts_nanos = 7000, ts_tz = Some ''+00:00''\<rparr>"


text \<open>A sheet with three headers and two rows, the second with two empty cells.\<close>

definition df_example :: dataframe where
  "df_example =
     \<lparr>df_columns = [HStr ''Full Name'', HStr ''Score-1'', HStr ''Submitted On''],
      df_rows = [[CStr ''Jane Doe'', CInt 42, CTimestamp ts_example],
                 [CStr ''John Roe'', CNaN, CNaT]]\<rparr>"

definition cols_example :: "string list" where
  "cols_example = [''`Full_Name`'', ''`Score_1`'', ''`Submitted_On`'']"

definition cfg_example :: config where
  "cfg_example =
     \<lparr>cfg_host = ''localhost'', cfg_database = ''forms'', cfg_user = ''importer'',
      cfg_password = ''secret'', cfg_table = ''form_responses'',
      cfg_excel_file = ''google_form_responses.xlsx''\<rparr>"

text \<open>
  A run in which everything works: the configuration and the sheet exist and the driver
  never raises.
\<close>

definition env_ok :: env where
  "env_ok =
     \<lparr>now_stamp = ''20240102_030405'',
      path_exists = (\<lambda>p. True),
      write_file = (\<lambda>p c. None),
      parse_config = (\<lambda>p. Inr cfg_example),
      read_excel = (\<lambda>p. Inr df_example),
      dtype_of = (\<lambda>df col. ''object''),
      db = (\<lambda>h c. None),
      is_connected = (\<lambda>h. True)\<rparr>"

text \<open>The first run: no configuration file yet.\<close>

definition env_first_run :: env where
  "env_first_run = env_ok\<lparr>path_exists := (\<lambda>p. False)\<rparr>"

text \<open>The sheet named in the configuration does not exist.\<close>

definition env_no_sheet :: env where
  "env_no_sheet =
     env_ok\<lparr>read_excel :=
       (\<lambda>p. Inl ''[Errno 2] No such file or directory: google_form_responses.xlsx'')\<rparr>"

text \<open>The server rejects every statement; the server cannot be reached.\<close>

definition env_sql_rejected :: env where
  "env_sql_rejected =
     env_ok\<lparr>db := (\<lambda>h c. case c of Execute q ps \<Rightarrow> Some (DbError ''1064: syntax error'')
                               | _ \<Rightarrow> None)\<rparr>"

definition env_unreachable :: env where
  "env_unreachable =
     env_ok\<lparr>db := (\<lambda>h c. case c of
                            Connect a b c d \<Rightarrow> Some (DbError ''2003: Cannot connect to MySQL server'')
                          | _ \<Rightarrow> None)\<rparr>"

text \<open>The driver raises an exception of another class at the commit call.\<close>

definition env_commit_crash :: env where
  "env_commit_crash =
     env_ok\<lparr>db := (\<lambda>h c. case c of Commit \<Rightarrow> Some (OtherError ''connection reset'')
                               | _ \<Rightarrow> None)\<rparr>"



text \<open>The driver in front of a server that has no table yet.\<close>

definition env_server :: env where
  "env_server = env_ok\<lparr>db := server_db (\<lambda>n. None)\<rparr>"

section \<open>Decimal digits\<close>











section \<open>Sanitized column names\<close>

lemma str_replace_char:
  "str_replace [a] [b] s = map (\<lambda>c. if c = a then b else c) s"
  by (induction s) auto

lemma sanitize_columns_strings: "sanitize_columns (map HStr hs) = Inr (map sanitize hs)"
  by (induction hs) auto


text \<open>
  C2. The sanitized name of a header string is the header with every space, hyphen and
  period replaced by an underscore and every other character kept, between two backticks.
  It depends on the header alone: over a list of string headers the column list is the
  sanitized name of each header, in order.
\<close>

theorem sanitize_replaces_separators:
  "sanitize h =
     ''`'' @ map (\<lambda>c. if c = CHR '' '' \<or> c = CHR ''-'' \<or> c = CHR ''.'' then CHR ''_'' else c) h @ ''`''
   \<and> sanitize_columns (map HStr hs) = Inr (map sanitize hs)"
  by (simp add: sanitize_def str_replace_char sanitize_columns_strings)

theorem sanitize_replaces_separators_witness:
  "sanitize ''Score-1 v.2'' = ''`Score_1_v_2`''
   \<and> sanitize_columns (map HStr [''Full Name'', ''Full Name''])
       = Inr [''`Full_Name`'', ''`Full_Name`'']"
  using sanitize_replaces_separators [of "''Score-1 v.2''" "[]"]
    sanitize_replaces_separators [of "''Full Name''" "[''Full Name'', ''Full Name'']"]
  by simp

section \<open>The row value converter\<close>

text \<open>
  C3. A missing cell (\<open>None\<close>, NaN or NaT) is converted to \<open>None\<close>, and so neither to the
  empty string nor to the text \<open>nan\<close>.
\<close>

theorem convert_missing_is_None:
  "pd_isna v \<Longrightarrow>
     convert_timestamp v = PyNone \<and> convert_timestamp v \<noteq> PyStr [] \<and>
     convert_timestamp v \<noteq> PyStr ''nan''"
  by (simp add: convert_timestamp.simps)

theorem convert_missing_is_None_witness:
  "pd_isna CNaN \<and> convert_timestamp CNaN = PyNone \<and> convert_timestamp CNaN \<noteq> PyStr []
   \<and> convert_timestamp CNaN \<noteq> PyStr ''nan'' \<and> py_str CNaN = ''nan''"
  using convert_missing_is_None [of CNaN] by simp














section \<open>Traces of the row inserter and of the schema synchronizer\<close>




lemma executed_append: "executed (a @ b) = executed a @ executed b"
  by (induction a rule: executed.induct) auto

lemma db_calls_append: "db_calls (a @ b) = db_calls a @ db_calls b"
  by (induction a rule: db_calls.induct) auto






text \<open>What the three driver calls of the schema synchronizer can do.\<close>

lemma create_table_calls_cases:
  assumes "create_table_calls E df cols tn t1 = (x, tr')"
  shows "(x = Inr (df, cols) \<and>
          db E (t1 @ [DbCall Cursor]) (Execute (create_table_sql tn cols) []) = None \<and>
          tr' = t1 @ [DbCall Cursor, DbCall (Execute (create_table_sql tn cols) []), DbCall Commit,
                      Log INFO (''Table '' @ tn @ '' created or already exists'')])
       \<or> (\<exists>e h c. x = Inl e \<and> db E h c = Some e \<and> tr' = h @ [DbCall c] \<and>
             (executed tr' = executed t1 \<or>
              executed tr' = executed t1 @ [(create_table_sql tn cols, [])]))"
proof (cases "db E t1 Cursor")
  case (Some e)
  with assms have "x = Inl e" "tr' = t1 @ [DbCall Cursor]"
    by (auto simp: create_table_calls_def db_call_def)
  with Some show ?thesis
    by (intro disjI2 exI[of _ e] exI[of _ t1] exI[of _ Cursor]) (simp add: executed_append)
next
  case c1: None
  let ?t2 = "t1 @ [DbCall Cursor]"
  let ?q = "create_table_sql tn cols"
  show ?thesis
  proof (cases "db E ?t2 (Execute ?q [])")
    case (Some e)
    with c1 assms have "x = Inl e" "tr' = ?t2 @ [DbCall (Execute ?q [])]"
      by (auto simp: create_table_calls_def db_call_def)
    with Some show ?thesis
      by (intro disjI2 exI[of _ e] exI[of _ ?t2] exI[of _ "Execute ?q []"])
         (simp add: executed_append)
  next
    case c2: None
    let ?t3 = "?t2 @ [DbCall (Execute ?q [])]"
    show ?thesis
    proof (cases "db E ?t3 Commit")
      case (Some e)
      with c1 c2 assms have "x = Inl e" "tr' = ?t3 @ [DbCall Commit]"
        by (auto simp: create_table_calls_def db_call_def)
      with Some show ?thesis
        by (intro disjI2 exI[of _ e] exI[of _ ?t3] exI[of _ Commit])
           (simp add: executed_append)
    next
      case None
      with c1 c2 assms show ?thesis
        by (auto simp: create_table_calls_def db_call_def)
    qed
  qed
qed

section \<open>Facts about driver calls made in order\<close>

lemma history_0: "history tr cs 0 = tr"
  by (simp add: history_def)

lemma history_Cons: "history tr (c # cs) (Suc j) = history (tr @ [DbCall c]) cs j"
  by (simp add: history_def)

lemma none_raises_Nil: "none_raises E [] tr"
  by (simp add: none_raises_def)

lemma list_all_upt: "list_all P [0..<n] \<longleftrightarrow> (\<forall>j<n. P j)"
  by (auto simp: list_all_iff)

lemma none_raises_Cons:
  "none_raises E (c # cs) tr \<longleftrightarrow> db E tr c = None \<and> none_raises E cs (tr @ [DbCall c])"
  unfolding none_raises_def list_all_upt
  by (simp add: All_less_Suc2 history_0 history_Cons)

lemma first_raise_Nil: "\<not> first_raise E [] tr i e"
  by (simp add: first_raise_def)

lemma first_raise_Cons_0: "first_raise E (c # cs) tr 0 e \<longleftrightarrow> db E tr c = Some e"
  unfolding first_raise_def list_all_upt by (simp add: history_0)

lemma first_raise_Cons_Suc:
  "first_raise E (c # cs) tr (Suc i) e \<longleftrightarrow>
     db E tr c = None \<and> first_raise E cs (tr @ [DbCall c]) i e"
  unfolding first_raise_def list_all_upt
  by (auto simp add: All_less_Suc2 history_0 history_Cons)

lemma run_calls_none:
  "none_raises E cs tr \<Longrightarrow> run_calls E cs tr = (None, tr @ map DbCall cs)"
  by (induction cs arbitrary: tr) (simp_all add: none_raises_Cons db_call_def)

lemma run_calls_first_raise:
  "first_raise E cs tr i e \<Longrightarrow> run_calls E cs tr = (Some e, history tr cs (Suc i))"
proof (induction cs arbitrary: tr i)
  case Nil
  then show ?case by (simp add: first_raise_Nil)
next
  case (Cons c cs)
  show ?case
  proof (cases i)
    case 0
    with Cons.prems show ?thesis
      by (simp add: first_raise_Cons_0 db_call_def history_def)
  next
    case (Suc i')
    with Cons.prems have n: "db E tr c = None"
      and f: "first_raise E cs (tr @ [DbCall c]) i' e"
      by (simp_all add: first_raise_Cons_Suc)
    from Cons.IH[OF f] n Suc show ?thesis
      by (simp add: db_call_def history_Cons)
  qed
qed

lemma run_calls_cases:
  "none_raises E cs tr \<or> (\<exists>i e. first_raise E cs tr i e)"
proof (induction cs arbitrary: tr)
  case Nil
  show ?case by (simp add: none_raises_Nil)
next
  case (Cons c cs)
  show ?case
  proof (cases "db E tr c")
    case (Some e)
    then have "first_raise E (c # cs) tr 0 e" by (simp add: first_raise_Cons_0)
    then show ?thesis by blast
  next
    case None
    from Cons.IH[of "tr @ [DbCall c]"] show ?thesis
    proof
      assume "none_raises E cs (tr @ [DbCall c])"
      with None show ?thesis by (simp add: none_raises_Cons)
    next
      assume "\<exists>i e. first_raise E cs (tr @ [DbCall c]) i e"
      then obtain i e where "first_raise E cs (tr @ [DbCall c]) i e" by blast
      with None have "first_raise E (c # cs) tr (Suc i) e" by (simp add: first_raise_Cons_Suc)
      then show ?thesis by blast
    qed
  qed
qed

lemma first_raise_not_none: "first_raise E cs tr i e \<Longrightarrow> \<not> none_raises E cs tr"
  using run_calls_first_raise[of E cs tr i e] run_calls_none[of E cs tr] by auto

lemma first_raise_unique:
  "first_raise E cs tr i e \<Longrightarrow> first_raise E cs tr i' e' \<Longrightarrow> i = i' \<and> e = e'"
proof -
  assume a: "first_raise E cs tr i e" and b: "first_raise E cs tr i' e'"
  from run_calls_first_raise[OF a] run_calls_first_raise[OF b]
  have e: "e = e'" and h: "history tr cs (Suc i) = history tr cs (Suc i')" by simp_all
  from a b have "Suc i \<le> length cs" "Suc i' \<le> length cs" by (simp_all add: first_raise_def)
  with h have "Suc i = Suc i'"
    by (metis history_def length_map length_take min.absorb2 same_append_eq)
  with e show ?thesis by simp
qed

lemma run_calls_append:
  "run_calls E (a @ b) tr =
     (case run_calls E a tr of (Some e, t) \<Rightarrow> (Some e, t) | (None, t) \<Rightarrow> run_calls E b t)"
  by (induction a arbitrary: tr) (auto simp: db_call_def split: option.splits)

lemma insert_rows_run_calls:
  "insert_rows E q rows n tr =
     (case run_calls E (map (\<lambda>row. Execute q (map convert_timestamp row)) rows) tr of
        (Some e, t) \<Rightarrow> (Inl e, t)
      | (None, t) \<Rightarrow> (Inr (n + length rows), t))"
  by (induction rows arbitrary: n tr) (auto simp: db_call_def split: option.splits prod.splits)

lemma insert_data_body_run_calls:
  "insert_data_body E df cols tn tr =
     (case run_calls E (insert_calls tn cols df) tr of
        (Some e, t) \<Rightarrow> (Inl e, t)
      | (None, t) \<Rightarrow>
          (Inr (PyBool True),
           t @ [Log INFO (''Successfully inserted '' @ str_nat (length (df_rows df))
                          @ '' records into '' @ tn),
                Print (''Successfully inserted '' @ str_nat (length (df_rows df))
                       @ '' records into '' @ tn)]))"
  by (auto simp: insert_data_body_def insert_calls_def run_calls_append insert_rows_run_calls
      db_call_def split: option.splits prod.splits)

lemma insert_data_run_calls:
  "insert_data E df cols tn tr =
     (case run_calls E (insert_calls tn cols df) tr of
        (None, t) \<Rightarrow>
          (Return (PyBool True),
           t @ [Log INFO (''Successfully inserted '' @ str_nat (length (df_rows df))
                          @ '' records into '' @ tn),
                Print (''Successfully inserted '' @ str_nat (length (df_rows df))
                       @ '' records into '' @ tn)])
      | (Some (DbError m), t) \<Rightarrow>
          (Return (PyBool False),
           t @ [Log ERROR (''Error inserting data: '' @ m), Print (''Error inserting data: '' @ m)])
      | (Some (OtherError m), t) \<Rightarrow> (Raise (OtherError m), t))"
  by (simp add: insert_data_def insert_data_body_run_calls split: option.splits prod.splits exn.splits)

lemma create_table_calls_run_calls:
  "create_table_calls E df cols tn tr =
     (case run_calls E (sync_calls tn cols) tr of
        (Some e, t) \<Rightarrow> (Inl e, t)
      | (None, t) \<Rightarrow>
          (Inr (df, cols), t @ [Log INFO (''Table '' @ tn @ '' created or already exists'')]))"
  by (auto simp: create_table_calls_def sync_calls_def db_call_def split: option.splits)

section \<open>The row inserter\<close>

lemma env_ok_db: "db env_ok h c = None"
  by (simp add: env_ok_def)

text \<open>
  C1 (as stated). With two rows and a driver that never raises, the row inserter returns
  \<open>True\<close>, which is not the count 2.
\<close>

theorem insert_data_count_counterexample:
  "length (df_rows df_example) = 2
   \<and> fst (insert_data env_ok df_example cols_example ''form_responses'' []) = Return (PyBool True)
   \<and> fst (insert_data env_ok df_example cols_example ''form_responses'' []) \<noteq> Return (PyInt 2)"
  by (simp add: insert_data_def insert_data_body_def db_call_def env_ok_db df_example_def)

text \<open>
  C1 (amended). The driver calls of the row inserter are the cursor call, one insert per
  row and the commit. When none of them raises, it returns \<open>True\<close> (not the count), having
  logged and printed the number of rows of the dataset. When the first call to raise raises
  the driver's error, it logs and prints the error and returns \<open>False\<close>. When the first
  call to raise raises an exception of another class, that exception leaves the function.
  One of the three happens.
\<close>

theorem insert_data_returns_flag:
  "(none_raises E (insert_calls tn cols df) tr \<longrightarrow>
      insert_data E df cols tn tr =
        (Return (PyBool True),
         tr @ map DbCall (insert_calls tn cols df)
         @ [Log INFO (''Successfully inserted '' @ str_nat (length (df_rows df))
                      @ '' records into '' @ tn),
            Print (''Successfully inserted '' @ str_nat (length (df_rows df))
                   @ '' records into '' @ tn)]))
   \<and> (first_raise E (insert_calls tn cols df) tr i (DbError m) \<longrightarrow>
        insert_data E df cols tn tr =
          (Return (PyBool False),
           history tr (insert_calls tn cols df) (Suc i)
           @ [Log ERROR (''Error inserting data: '' @ m),
              Print (''Error inserting data: '' @ m)]))
   \<and> (first_raise E (insert_calls tn cols df) tr i (OtherError m) \<longrightarrow>
        insert_data E df cols tn tr =
          (Raise (OtherError m), history tr (insert_calls tn cols df) (Suc i)))
   \<and> (none_raises E (insert_calls tn cols df) tr
        \<or> (\<exists>j e. first_raise E (insert_calls tn cols df) tr j e))
   \<and> length (insert_calls tn cols df) = length (df_rows df) + 2"
proof (intro conjI impI)
  assume "none_raises E (insert_calls tn cols df) tr"
  from run_calls_none[OF this]
  show "insert_data E df cols tn tr =
        (Return (PyBool True),
         tr @ map DbCall (insert_calls tn cols df)
         @ [Log INFO (''Successfully inserted '' @ str_nat (length (df_rows df))
                      @ '' records into '' @ tn),
            Print (''Successfully inserted '' @ str_nat (length (df_rows df))
                   @ '' records into '' @ tn)])"
    by (simp add: insert_data_run_calls)
next
  assume "first_raise E (insert_calls tn cols df) tr i (DbError m)"
  from run_calls_first_raise[OF this]
  show "insert_data E df cols tn tr =
          (Return (PyBool False),
           history tr (insert_calls tn cols df) (Suc i)
           @ [Log ERROR (''Error inserting data: '' @ m),
              Print (''Error inserting data: '' @ m)])"
    by (simp add: insert_data_run_calls)
next
  assume "first_raise E (insert_calls tn cols df) tr i (OtherError m)"
  from run_calls_first_raise[OF this]
  show "insert_data E df cols tn tr =
          (Raise (OtherError m), history tr (insert_calls tn cols df) (Suc i))"
    by (simp add: insert_data_run_calls)
next
  show "none_raises E (insert_calls tn cols df) tr
        \<or> (\<exists>j e. first_raise E (insert_calls tn cols df) tr j e)"
    by (rule run_calls_cases)
next
  show "length (insert_calls tn cols df) = length (df_rows df) + 2"
    by (simp add: insert_calls_def)
qed

lemma env_sql_rejected_db:
  "db env_sql_rejected h Cursor = None" "db env_sql_rejected h Commit = None"
  "db env_sql_rejected h Close = None" "db env_sql_rejected h (Connect a b c d) = None"
  "db env_sql_rejected h (Execute q ps) = Some (DbError ''1064: syntax error'')"
  by (simp_all add: env_sql_rejected_def env_ok_def)

lemma env_commit_crash_db:
  "db env_commit_crash h Cursor = None"
  "db env_commit_crash h Commit = Some (OtherError ''connection reset'')"
  "db env_commit_crash h (Execute q ps) = None"
  by (simp_all add: env_commit_crash_def env_ok_def)

theorem insert_data_returns_flag_witness:
  "none_raises env_ok (insert_calls ''form_responses'' cols_example df_example) []
   \<and> fst (insert_data env_ok df_example cols_example ''form_responses'' []) = Return (PyBool True)
   \<and> first_raise env_sql_rejected (insert_calls ''form_responses'' cols_example df_example) []
        (Suc 0) (DbError ''1064: syntax error'')
   \<and> fst (insert_data env_sql_rejected df_example cols_example ''form_responses'' [])
       = Return (PyBool False)
   \<and> first_raise env_commit_crash (insert_calls ''form_responses'' cols_example df_example) []
        (Suc (Suc (Suc 0))) (OtherError ''connection reset'')
   \<and> fst (insert_data env_commit_crash df_example cols_example ''form_responses'' [])
       = Raise (OtherError ''connection reset'')"
proof -
  let ?cs = "insert_calls ''form_responses'' cols_example df_example"
  have a: "none_raises env_ok ?cs []"
    by (simp add: none_raises_def list_all_iff env_ok_db)
  have b: "first_raise env_sql_rejected ?cs [] (Suc 0) (DbError ''1064: syntax error'')"
    by (simp add: insert_calls_def df_example_def first_raise_Cons_Suc first_raise_Cons_0
        env_sql_rejected_db)
  have c: "first_raise env_commit_crash ?cs [] (Suc (Suc (Suc 0)))
             (OtherError ''connection reset'')"
    by (simp add: insert_calls_def df_example_def first_raise_Cons_Suc first_raise_Cons_0
        env_commit_crash_db)
  from a insert_data_returns_flag [of env_ok "''form_responses''" cols_example df_example "[]"]
  have 1: "fst (insert_data env_ok df_example cols_example ''form_responses'' [])
             = Return (PyBool True)"
    by simp
  from b insert_data_returns_flag [of env_sql_rejected "''form_responses''" cols_example
      df_example "[]" "Suc 0" "''1064: syntax error''"]
  have 2: "fst (insert_data env_sql_rejected df_example cols_example ''form_responses'' [])
             = Return (PyBool False)"
    by simp
  from c insert_data_returns_flag [of env_commit_crash "''form_responses''" cols_example
      df_example "[]" "Suc (Suc (Suc 0))" "''connection reset''"]
  have 3: "fst (insert_data env_commit_crash df_example cols_example ''form_responses'' [])
             = Raise (OtherError ''connection reset'')"
    by simp
  from a b c 1 2 3 show ?thesis by (intro conjI)
qed




section \<open>The schema synchronizer\<close>

lemma sanitize_columns_Inl: "sanitize_columns hs = Inl e \<Longrightarrow> \<exists>m. e = OtherError m"
  by (induction hs arbitrary: e rule: sanitize_columns.induct) (auto split: sum.splits)

text \<open>What a call of the schema synchronizer can do.\<close>

lemma create_table_cases:
  assumes "create_table_if_not_exists E f tn tr = (r, tr')"
  shows "(\<exists>df cols. r = Return (Some (df, cols)) \<and> read_excel E f = Inr df \<and>
            sanitize_columns (df_columns df) = Inr cols \<and>
            db E (tr @ [PrintInfo df, Log INFO ''DataFrame info: None'', DbCall Cursor])
              (Execute (create_table_sql tn cols) []) = None \<and>
            tr' = tr @ [PrintInfo df, Log INFO ''DataFrame info: None'', DbCall Cursor,
                        DbCall (Execute (create_table_sql tn cols) []), DbCall Commit,
                        Log INFO (''Table '' @ tn @ '' created or already exists'')])
       \<or> (\<exists>m h c. r = Return None \<and> db E h c = Some (DbError m) \<and>
             tr' = h @ [DbCall c, Log ERROR (''Error creating table: '' @ m),
                        Print (''Error creating table: '' @ m)] \<and>
             (executed tr' = executed tr \<or>
              (\<exists>cols. executed tr' = executed tr @ [(create_table_sql tn cols, [])])))
       \<or> (\<exists>m. r = Raise (OtherError m) \<and>
             ((read_excel E f = Inl m \<and> tr' = tr) \<or>
              (\<exists>df. read_excel E f = Inr df \<and>
                    sanitize_columns (df_columns df) = Inl (OtherError m)) \<or>
              (\<exists>h c. db E h c = Some (OtherError m) \<and> tr' = h @ [DbCall c])))"
proof (cases "read_excel E f")
  case (Inl msg)
  with assms have "r = Raise (OtherError msg)" "tr' = tr"
    by (auto simp: create_table_if_not_exists_def create_table_body_def)
  with Inl show ?thesis by simp
next
  case (Inr df)
  let ?t1 = "tr @ [PrintInfo df, Log INFO ''DataFrame info: None'']"
  show ?thesis
  proof (cases "sanitize_columns (df_columns df)")
    case (Inl e)
    then obtain m where m: "e = OtherError m"
      using sanitize_columns_Inl by blast
    with Inl Inr assms have "r = Raise (OtherError m)"
      by (auto simp: create_table_if_not_exists_def create_table_body_def)
    with Inl Inr m show ?thesis by simp
  next
    case cols: (Inr cols)
    obtain x t where c: "create_table_calls E df cols tn ?t1 = (x, t)" by force
    with Inr cols have b: "create_table_body E f tn tr = (x, t)"
      by (simp add: create_table_body_def)
    from create_table_calls_cases[OF c] show ?thesis
    proof (rule disjE)
      assume "x = Inr (df, cols) \<and>
          db E (?t1 @ [DbCall Cursor]) (Execute (create_table_sql tn cols) []) = None \<and>
          t = ?t1 @ [DbCall Cursor, DbCall (Execute (create_table_sql tn cols) []), DbCall Commit,
                      Log INFO (''Table '' @ tn @ '' created or already exists'')]"
      note x = this[THEN conjunct1] and d = this[THEN conjunct2, THEN conjunct1]
        and t = this[THEN conjunct2, THEN conjunct2]
      from assms b x have "r = Return (Some (df, cols))" "tr' = t"
        by (auto simp: create_table_if_not_exists_def)
      with Inr cols d t show ?thesis by simp
    next
      assume "\<exists>e h c. x = Inl e \<and> db E h c = Some e \<and> t = h @ [DbCall c] \<and>
             (executed t = executed ?t1 \<or>
              executed t = executed ?t1 @ [(create_table_sql tn cols, [])])"
      then obtain e h c where x: "x = Inl e" and d: "db E h c = Some e"
        and t: "t = h @ [DbCall c]"
        and ex: "executed t = executed ?t1 \<or>
                 executed t = executed ?t1 @ [(create_table_sql tn cols, [])]"
        by (elim exE conjE) (rule that)
      show ?thesis
      proof (cases e)
        case (DbError m)
        with assms b x have r: "r = Return None"
          "tr' = t @ [Log ERROR (''Error creating table: '' @ m),
                      Print (''Error creating table: '' @ m)]"
          by (auto simp: create_table_if_not_exists_def)
        from ex have "executed tr' = executed tr \<or>
              (\<exists>cols. executed tr' = executed tr @ [(create_table_sql tn cols, [])])"
          unfolding r by (auto simp: executed_append)
        with r d t DbError show ?thesis by auto
      next
        case (OtherError m)
        with assms b x have "r = Raise (OtherError m)" "tr' = t"
          by (auto simp: create_table_if_not_exists_def)
        with d t OtherError show ?thesis by auto
      qed
    qed
  qed
qed

lemma main_when_connected:
  assumes "path_exists E ''config.ini''" "parse_config E ''config.ini'' = Inr cfg"
    and "db E (tr @ [Print ''Starting Excel to MySQL data transfer...'',
                     Log INFO ''Starting Excel to MySQL data transfer''])
           (Connect (cfg_host cfg) (cfg_database cfg) (cfg_user cfg) (cfg_password cfg)) = None"
    and "is_connected E (tr @ [Print ''Starting Excel to MySQL data transfer...'',
                               Log INFO ''Starting Excel to MySQL data transfer'',
                               DbCall (Connect (cfg_host cfg) (cfg_database cfg) (cfg_user cfg)
                                         (cfg_password cfg))])"
  shows "main E tr = main_connected E cfg (connected_trace cfg tr)"
  using assms
  by (simp add: main_def read_config_def connect_to_database_def db_call_def connected_trace_def)

lemma create_table_run_calls:
  assumes "read_excel E f = Inr df" "sanitize_columns (df_columns df) = Inr cols"
  shows "create_table_if_not_exists E f tn tr =
     (case run_calls E (sync_calls tn cols)
             (tr @ [PrintInfo df, Log INFO ''DataFrame info: None'']) of
        (None, t) \<Rightarrow>
          (Return (Some (df, cols)),
           t @ [Log INFO (''Table '' @ tn @ '' created or already exists'')])
      | (Some (DbError m), t) \<Rightarrow>
          (Return None,
           t @ [Log ERROR (''Error creating table: '' @ m), Print (''Error creating table: '' @ m)])
      | (Some (OtherError m), t) \<Rightarrow> (Raise (OtherError m), t))"
  using assms
  by (simp add: create_table_if_not_exists_def create_table_body_def create_table_calls_run_calls
      split: option.splits prod.splits exn.splits)

lemma create_table_no_DbError:
  "fst (create_table_if_not_exists E f tn tr) \<noteq> Raise (DbError m)"
proof -
  obtain r t where x: "create_table_if_not_exists E f tn tr = (r, t)" by force
  from create_table_cases[OF x] have "r \<noteq> Raise (DbError m)" by auto
  with x show ?thesis by simp
qed

lemma main_connected_sync_None:
  assumes "create_table_if_not_exists E (cfg_excel_file cfg) (cfg_table cfg) tr = (Return None, tr1)"
  shows "main_connected E cfg tr =
           (case db E tr1 Close of
              None \<Rightarrow> (Return (), tr1 @ [DbCall Close])
            | Some e \<Rightarrow> (Raise e, tr1 @ [DbCall Close]))"
  using assms by (simp add: main_connected_def db_call_def split: option.splits)

lemma main_connected_sync_Raise:
  assumes "create_table_if_not_exists E (cfg_excel_file cfg) (cfg_table cfg) tr = (Raise e, tr1)"
  shows "main_connected E cfg tr = (Raise e, tr1)"
  using assms by (simp add: main_connected_def)

text \<open>
  C5 (as stated). When the sheet cannot be read, the schema synchronizer does not return
  the null pair: the exception of the read leaves it, and leaves \<^verbatim>\<open>main\<close> too, after the
  connect call and with no call that closes the connection.
\<close>

theorem schema_sync_read_failure_counterexample:
  "read_excel env_no_sheet (cfg_excel_file cfg_example)
     = Inl ''[Errno 2] No such file or directory: google_form_responses.xlsx''
   \<and> fst (create_table_if_not_exists env_no_sheet (cfg_excel_file cfg_example)
           (cfg_table cfg_example) [])
       = Raise (OtherError ''[Errno 2] No such file or directory: google_form_responses.xlsx'')
   \<and> fst (create_table_if_not_exists env_no_sheet (cfg_excel_file cfg_example)
           (cfg_table cfg_example) []) \<noteq> Return None
   \<and> fst (main env_no_sheet [])
       = Raise (OtherError ''[Errno 2] No such file or directory: google_form_responses.xlsx'')
   \<and> db_calls (snd (main env_no_sheet [])) = [Connect ''localhost'' ''forms'' ''importer'' ''secret'']"
  by (simp add: env_no_sheet_def env_ok_def cfg_example_def create_table_if_not_exists_def
      create_table_body_def main_def main_connected_def read_config_def connect_to_database_def
      db_call_def)

text \<open>
  C5 (amended). After the sheet is read and its headers, all strings, are sanitized, the
  schema synchronizer makes the cursor, execute and commit calls. When none of them raises
  it returns the dataset and the column list. When the first of them to raise raises the
  driver's error, whichever call it is, the function logs and prints the error and returns
  the null pair. When it raises an exception of another class, that exception leaves the
  function, as does the exception of reading the sheet and that of a header that is not a
  string. No driver error leaves the function. When \<^verbatim>\<open>main\<close> gets the null pair, its
  only call after those of the schema synchronizer is the one that closes the connection;
  when the schema synchronizer raises, so does \<^verbatim>\<open>main\<close>, with no further call.
\<close>

theorem schema_sync_driver_failure:
  "(read_excel E f = Inl msg \<longrightarrow>
      create_table_if_not_exists E f tn tr = (Raise (OtherError msg), tr))
   \<and> (read_excel E f = Inr df \<and> sanitize_columns (df_columns df) = Inl e \<longrightarrow>
        create_table_if_not_exists E f tn tr =
          (Raise e, tr @ [PrintInfo df, Log INFO ''DataFrame info: None''])
        \<and> (\<exists>m'. e = OtherError m'))
   \<and> (read_excel E f = Inr df \<and> sanitize_columns (df_columns df) = Inr cols \<longrightarrow>
        (none_raises E (sync_calls tn cols)
           (tr @ [PrintInfo df, Log INFO ''DataFrame info: None'']) \<longrightarrow>
         create_table_if_not_exists E f tn tr =
           (Return (Some (df, cols)),
            tr @ [PrintInfo df, Log INFO ''DataFrame info: None'']
            @ map DbCall (sync_calls tn cols)
            @ [Log INFO (''Table '' @ tn @ '' created or already exists'')]))
        \<and> (first_raise E (sync_calls tn cols)
              (tr @ [PrintInfo df, Log INFO ''DataFrame info: None'']) i (DbError m) \<longrightarrow>
            create_table_if_not_exists E f tn tr =
              (Return None,
               history (tr @ [PrintInfo df, Log INFO ''DataFrame info: None''])
                 (sync_calls tn cols) (Suc i)
               @ [Log ERROR (''Error creating table: '' @ m),
                  Print (''Error creating table: '' @ m)]))
        \<and> (first_raise E (sync_calls tn cols)
              (tr @ [PrintInfo df, Log INFO ''DataFrame info: None'']) i (OtherError m) \<longrightarrow>
            create_table_if_not_exists E f tn tr =
              (Raise (OtherError m),
               history (tr @ [PrintInfo df, Log INFO ''DataFrame info: None''])
                 (sync_calls tn cols) (Suc i)))
        \<and> (none_raises E (sync_calls tn cols)
              (tr @ [PrintInfo df, Log INFO ''DataFrame info: None''])
            \<or> (\<exists>j e'. first_raise E (sync_calls tn cols)
                        (tr @ [PrintInfo df, Log INFO ''DataFrame info: None'']) j e')))
   \<and> sync_calls tn cols = [Cursor, Execute (create_table_sql tn cols) [], Commit]
   \<and> (\<forall>m'. fst (create_table_if_not_exists E f tn tr) \<noteq> Raise (DbError m'))
   \<and> (path_exists E ''config.ini'' \<and> parse_config E ''config.ini'' = Inr cfg \<and>
       db E (tr0 @ [Print ''Starting Excel to MySQL data transfer...'',
                    Log INFO ''Starting Excel to MySQL data transfer''])
         (Connect (cfg_host cfg) (cfg_database cfg) (cfg_user cfg) (cfg_password cfg)) = None \<and>
       is_connected E (tr0 @ [Print ''Starting Excel to MySQL data transfer...'',
                              Log INFO ''Starting Excel to MySQL data transfer'',
                              DbCall (Connect (cfg_host cfg) (cfg_database cfg) (cfg_user cfg)
                                        (cfg_password cfg))]) \<longrightarrow>
       (create_table_if_not_exists E (cfg_excel_file cfg) (cfg_table cfg) (connected_trace cfg tr0)
          = (Return None, tr1) \<longrightarrow>
        main E tr0 =
          (case db E tr1 Close of
             None \<Rightarrow> (Return (), tr1 @ [DbCall Close])
           | Some e' \<Rightarrow> (Raise e', tr1 @ [DbCall Close])))
       \<and> (create_table_if_not_exists E (cfg_excel_file cfg) (cfg_table cfg)
             (connected_trace cfg tr0) = (Raise e2, tr1) \<longrightarrow>
           main E tr0 = (Raise e2, tr1)))"
proof (intro conjI impI allI)
  assume "read_excel E f = Inl msg"
  then show "create_table_if_not_exists E f tn tr = (Raise (OtherError msg), tr)"
    by (simp add: create_table_if_not_exists_def create_table_body_def)
next
  assume a: "read_excel E f = Inr df \<and> sanitize_columns (df_columns df) = Inl e"
  then obtain m' where m': "e = OtherError m'" using sanitize_columns_Inl by blast
  then show "\<exists>m'. e = OtherError m'" by blast
  from a m' show "create_table_if_not_exists E f tn tr =
          (Raise e, tr @ [PrintInfo df, Log INFO ''DataFrame info: None''])"
    by (simp add: create_table_if_not_exists_def create_table_body_def)
next
  assume a: "read_excel E f = Inr df \<and> sanitize_columns (df_columns df) = Inr cols"
  note eq = create_table_run_calls[OF a[THEN conjunct1] a[THEN conjunct2], of tn tr]
  {
    assume "none_raises E (sync_calls tn cols)
              (tr @ [PrintInfo df, Log INFO ''DataFrame info: None''])"
    from run_calls_none[OF this]
    show "create_table_if_not_exists E f tn tr =
           (Return (Some (df, cols)),
            tr @ [PrintInfo df, Log INFO ''DataFrame info: None'']
            @ map DbCall (sync_calls tn cols)
            @ [Log INFO (''Table '' @ tn @ '' created or already exists'')])"
      by (simp add: eq)
  }
  {
    assume "first_raise E (sync_calls tn cols)
              (tr @ [PrintInfo df, Log INFO ''DataFrame info: None'']) i (DbError m)"
    from run_calls_first_raise[OF this]
    show "create_table_if_not_exists E f tn tr =
              (Return None,
               history (tr @ [PrintInfo df, Log INFO ''DataFrame info: None''])
                 (sync_calls tn cols) (Suc i)
               @ [Log ERROR (''Error creating table: '' @ m),
                  Print (''Error creating table: '' @ m)])"
      by (simp add: eq)
  }
  {
    assume "first_raise E (sync_calls tn cols)
              (tr @ [PrintInfo df, Log INFO ''DataFrame info: None'']) i (OtherError m)"
    from run_calls_first_raise[OF this]
    show "create_table_if_not_exists E f tn tr =
              (Raise (OtherError m),
               history (tr @ [PrintInfo df, Log INFO ''DataFrame info: None''])
                 (sync_calls tn cols) (Suc i))"
      by (simp add: eq)
  }
  show "none_raises E (sync_calls tn cols)
              (tr @ [PrintInfo df, Log INFO ''DataFrame info: None''])
            \<or> (\<exists>j e'. first_raise E (sync_calls tn cols)
                        (tr @ [PrintInfo df, Log INFO ''DataFrame info: None'']) j e')"
    by (rule run_calls_cases)
next
  show "sync_calls tn cols = [Cursor, Execute (create_table_sql tn cols) [], Commit]"
    by (simp add: sync_calls_def)
next
  fix m'
  show "fst (create_table_if_not_exists E f tn tr) \<noteq> Raise (DbError m')"
    by (rule create_table_no_DbError)
next
  assume h: "path_exists E ''config.ini'' \<and> parse_config E ''config.ini'' = Inr cfg \<and>
       db E (tr0 @ [Print ''Starting Excel to MySQL data transfer...'',
                    Log INFO ''Starting Excel to MySQL data transfer''])
         (Connect (cfg_host cfg) (cfg_database cfg) (cfg_user cfg) (cfg_password cfg)) = None \<and>
       is_connected E (tr0 @ [Print ''Starting Excel to MySQL data transfer...'',
                              Log INFO ''Starting Excel to MySQL data transfer'',
                              DbCall (Connect (cfg_host cfg) (cfg_database cfg) (cfg_user cfg)
                                        (cfg_password cfg))])"
  then have m: "main E tr0 = main_connected E cfg (connected_trace cfg tr0)"
    using main_when_connected[of E cfg tr0] by blast
  {
    assume "create_table_if_not_exists E (cfg_excel_file cfg) (cfg_table cfg)
              (connected_trace cfg tr0) = (Return None, tr1)"
    from main_connected_sync_None[OF this]
    show "main E tr0 =
          (case db E tr1 Close of
             None \<Rightarrow> (Return (), tr1 @ [DbCall Close])
           | Some e' \<Rightarrow> (Raise e', tr1 @ [DbCall Close]))"
      by (simp add: m)
  }
  {
    assume "create_table_if_not_exists E (cfg_excel_file cfg) (cfg_table cfg)
             (connected_trace cfg tr0) = (Raise e2, tr1)"
    from main_connected_sync_Raise[OF this]
    show "main E tr0 = (Raise e2, tr1)" by (simp add: m)
  }
qed

lemma cols_example_sanitized: "sanitize_columns (df_columns df_example) = Inr cols_example"
  by (simp add: df_example_def cols_example_def sanitize_def)

theorem schema_sync_driver_failure_witness:
  "first_raise env_sql_rejected (sync_calls ''form_responses'' cols_example)
     (connected_trace cfg_example [] @ [PrintInfo df_example, Log INFO ''DataFrame info: None''])
     (Suc 0) (DbError ''1064: syntax error'')
   \<and> main env_sql_rejected [] =
     (Return (),
      [Print ''Starting Excel to MySQL data transfer...'',
       Log INFO ''Starting Excel to MySQL data transfer'',
       DbCall (Connect ''localhost'' ''forms'' ''importer'' ''secret''),
       Log INFO ''Connected to MySQL database'',
       PrintInfo df_example, Log INFO ''DataFrame info: None'', DbCall Cursor,
       DbCall (Execute (create_table_sql ''form_responses'' cols_example) []),
       Log ERROR ''Error creating table: 1064: syntax error'',
       Print ''Error creating table: 1064: syntax error'',
       DbCall Close])"
proof -
  let ?E = env_sql_rejected
  let ?t0 = "connected_trace cfg_example []"
  let ?t1 = "?t0 @ [PrintInfo df_example, Log INFO ''DataFrame info: None'']"
  let ?tr1 = "history ?t1 (sync_calls (cfg_table cfg_example) cols_example) (Suc (Suc 0))
               @ [Log ERROR (''Error creating table: '' @ ''1064: syntax error''),
                  Print (''Error creating table: '' @ ''1064: syntax error'')]"
  have tn: "cfg_table cfg_example = ''form_responses''" by (simp add: cfg_example_def)
  have e: "read_excel ?E (cfg_excel_file cfg_example) = Inr df_example"
    "path_exists ?E ''config.ini''" "parse_config ?E ''config.ini'' = Inr cfg_example"
    "\<And>h. is_connected ?E h"
    by (simp_all add: env_sql_rejected_def env_ok_def)
  have f: "first_raise ?E (sync_calls (cfg_table cfg_example) cols_example) ?t1 (Suc 0)
             (DbError ''1064: syntax error'')"
    by (simp add: sync_calls_def first_raise_Cons_Suc first_raise_Cons_0 env_sql_rejected_db)
  note T = schema_sync_driver_failure [where E = ?E and f = "cfg_excel_file cfg_example"
      and tn = "cfg_table cfg_example" and tr = ?t0 and df = df_example and cols = cols_example
      and i = "Suc 0" and m = "''1064: syntax error''" and cfg = cfg_example and ?tr0.0 = "[]"
      and ?tr1.0 = ?tr1]
  from T e f cols_example_sanitized
  have c: "create_table_if_not_exists ?E (cfg_excel_file cfg_example) (cfg_table cfg_example) ?t0
             = (Return None, ?tr1)"
    by simp
  from T e c env_sql_rejected_db
  have "main ?E [] = (Return (), ?tr1 @ [DbCall Close])"
    by simp
  then have "main ?E [] =
     (Return (),
      [Print ''Starting Excel to MySQL data transfer...'',
       Log INFO ''Starting Excel to MySQL data transfer'',
       DbCall (Connect ''localhost'' ''forms'' ''importer'' ''secret''),
       Log INFO ''Connected to MySQL database'',
       PrintInfo df_example, Log INFO ''DataFrame info: None'', DbCall Cursor,
       DbCall (Execute (create_table_sql ''form_responses'' cols_example) []),
       Log ERROR ''Error creating table: 1064: syntax error'',
       Print ''Error creating table: 1064: syntax error'',
       DbCall Close])"
    by (simp add: history_def sync_calls_def connected_trace_def cfg_example_def)
  with f show ?thesis unfolding tn by (intro conjI)
qed

section \<open>The connector and the configuration loader\<close>

text \<open>
  C6. When the connect call raises the driver's error (authentication rejected, host
  unreachable, database missing), the connector logs the error with its text, prints it
  and returns \<open>None\<close>. \<^verbatim>\<open>main\<close> then returns at once: after the two start messages its
  trace is the connect call and the two error messages, so its only driver call is the
  connect call.
\<close>

theorem connect_failure_returns_None:
  "db E tr (Connect (cfg_host cfg) (cfg_database cfg) (cfg_user cfg) (cfg_password cfg))
     = Some (DbError m) \<Longrightarrow>
   connect_to_database E cfg tr =
     (Return None,
      tr @ [DbCall (Connect (cfg_host cfg) (cfg_database cfg) (cfg_user cfg) (cfg_password cfg)),
            Log ERROR (''Error connecting to MySQL database: '' @ m),
            Print (''Error connecting to MySQL database: '' @ m)])
   \<and> (path_exists E ''config.ini'' \<and> parse_config E ''config.ini'' = Inr cfg \<and>
       tr = tr0 @ [Print ''Starting Excel to MySQL data transfer...'',
                   Log INFO ''Starting Excel to MySQL data transfer''] \<longrightarrow>
       main E tr0 =
         (Return (),
          tr @ [DbCall (Connect (cfg_host cfg) (cfg_database cfg) (cfg_user cfg)
                          (cfg_password cfg)),
                Log ERROR (''Error connecting to MySQL database: '' @ m),
                Print (''Error connecting to MySQL database: '' @ m)])
       \<and> db_calls (snd (main E tr0)) =
           db_calls tr0 @ [Connect (cfg_host cfg) (cfg_database cfg) (cfg_user cfg)
                             (cfg_password cfg)]
       \<and> executed (snd (main E tr0)) = executed tr0)"
proof -
  assume d: "db E tr (Connect (cfg_host cfg) (cfg_database cfg) (cfg_user cfg) (cfg_password cfg))
     = Some (DbError m)"
  then have c: "connect_to_database E cfg tr =
     (Return None,
      tr @ [DbCall (Connect (cfg_host cfg) (cfg_database cfg) (cfg_user cfg) (cfg_password cfg)),
            Log ERROR (''Error connecting to MySQL database: '' @ m),
            Print (''Error connecting to MySQL database: '' @ m)])"
    by (simp add: connect_to_database_def db_call_def)
  have "main E tr0 =
         (Return (),
          tr @ [DbCall (Connect (cfg_host cfg) (cfg_database cfg) (cfg_user cfg)
                          (cfg_password cfg)),
                Log ERROR (''Error connecting to MySQL database: '' @ m),
                Print (''Error connecting to MySQL database: '' @ m)])
       \<and> db_calls (snd (main E tr0)) =
           db_calls tr0 @ [Connect (cfg_host cfg) (cfg_database cfg) (cfg_user cfg)
                             (cfg_password cfg)]
       \<and> executed (snd (main E tr0)) = executed tr0"
    if h: "path_exists E ''config.ini''" "parse_config E ''config.ini'' = Inr cfg"
      "tr = tr0 @ [Print ''Starting Excel to MySQL data transfer...'',
                   Log INFO ''Starting Excel to MySQL data transfer'']"
  proof -
    have m: "main E tr0 =
         (Return (),
          tr @ [DbCall (Connect (cfg_host cfg) (cfg_database cfg) (cfg_user cfg)
                          (cfg_password cfg)),
                Log ERROR (''Error connecting to MySQL database: '' @ m),
                Print (''Error connecting to MySQL database: '' @ m)])"
      using h(1,2) c unfolding h(3) by (simp add: main_def read_config_def)
    show ?thesis unfolding m unfolding h(3)
      by (simp add: db_calls_append executed_append)
  qed
  with c show ?thesis by blast
qed

theorem connect_failure_returns_None_witness:
  "main env_unreachable [] =
     (Return (),
      [Print ''Starting Excel to MySQL data transfer...'',
       Log INFO ''Starting Excel to MySQL data transfer'',
       DbCall (Connect ''localhost'' ''forms'' ''importer'' ''secret''),
       Log ERROR ''Error connecting to MySQL database: 2003: Cannot connect to MySQL server'',
       Print ''Error connecting to MySQL database: 2003: Cannot connect to MySQL server''])
   \<and> db_calls (snd (main env_unreachable [])) = [Connect ''localhost'' ''forms'' ''importer'' ''secret'']"
  using connect_failure_returns_None [where E = env_unreachable and cfg = cfg_example
      and ?tr0.0 = "[]" and m = "''2003: Cannot connect to MySQL server''"
      and tr = "[Print ''Starting Excel to MySQL data transfer...'',
                 Log INFO ''Starting Excel to MySQL data transfer'']"]
  by (simp add: env_unreachable_def env_ok_def cfg_example_def)

text \<open>
  C7 (as stated). On the first run the configuration file is not the only file written:
  the two log records of the run go to the log file.
\<close>

theorem first_run_side_effects_counterexample:
  "fst (main env_first_run []) = Exit 1
   \<and> written_paths env_first_run (snd (main env_first_run []))
       = [''excel_to_mysql_20240102_030405.log'', ''config.ini'',
          ''excel_to_mysql_20240102_030405.log'']
   \<and> written_paths env_first_run (snd (main env_first_run [])) \<noteq> [''config.ini'']"
  by (simp add: main_def read_config_def create_default_config_def env_first_run_def env_ok_def
      log_filename_def)

lemma default_config_text_eq:
  "default_config_text =
     ''[DATABASE]\<newline>host = localhost\<newline>database = your_database\<newline>user = your_username\<newline>password = your_password\<newline>table = form_responses\<newline>\<newline>[FILES]\<newline>excel_file = google_form_responses.xlsx\<newline>\<newline>''"
  by (simp add: default_config_text_def write_section_def)

text \<open>
  C7 (amended). When no file exists at the path and the template can be written, the
  loader writes the template, logs and prints that it did, prints the request to edit the
  file and ends the process with status 1. A run of \<^verbatim>\<open>main\<close> without \<^verbatim>\<open>config.ini\<close>
  therefore consists of the two start messages and these four events: it makes no driver
  call, and the files it writes are the template and the log file of the run.
\<close>

theorem first_run_writes_template:
  "\<not> path_exists E p \<Longrightarrow> write_file E p default_config_text = None \<Longrightarrow>
   read_config E p tr =
     (Exit 1,
      tr @ [FileWrite p default_config_text,
            Log INFO (''Created default config file: '' @ p),
            Print (''Created default config file: '' @ p),
            Print ''Please update the config file with your database credentials and try again.''])
   \<and> (p = ''config.ini'' \<longrightarrow>
        main E tr0 =
          (Exit 1,
           tr0 @ [Print ''Starting Excel to MySQL data transfer...'',
                  Log INFO ''Starting Excel to MySQL data transfer'',
                  FileWrite ''config.ini'' default_config_text,
                  Log INFO ''Created default config file: config.ini'',
                  Print ''Created default config file: config.ini'',
                  Print ''Please update the config file with your database credentials and try again.''])
        \<and> db_calls (snd (main E tr0)) = db_calls tr0
        \<and> written_paths E (new_events tr0 (snd (main E tr0)))
            = [log_filename E, ''config.ini'', log_filename E])
   \<and> default_config_text =
       ''[DATABASE]\<newline>host = localhost\<newline>database = your_database\<newline>user = your_username\<newline>password = your_password\<newline>table = form_responses\<newline>\<newline>[FILES]\<newline>excel_file = google_form_responses.xlsx\<newline>\<newline>''"
proof -
  assume a: "\<not> path_exists E p" "write_file E p default_config_text = None"
  have r: "read_config E p tr =
     (Exit 1,
      tr @ [FileWrite p default_config_text,
            Log INFO (''Created default config file: '' @ p),
            Print (''Created default config file: '' @ p),
            Print ''Please update the config file with your database credentials and try again.''])"
    for tr
    using a by (simp add: read_config_def create_default_config_def)
  have "main E tr0 =
          (Exit 1,
           tr0 @ [Print ''Starting Excel to MySQL data transfer...'',
                  Log INFO ''Starting Excel to MySQL data transfer'',
                  FileWrite ''config.ini'' default_config_text,
                  Log INFO ''Created default config file: config.ini'',
                  Print ''Created default config file: config.ini'',
                  Print ''Please update the config file with your database credentials and try again.''])
        \<and> db_calls (snd (main E tr0)) = db_calls tr0
        \<and> written_paths E (new_events tr0 (snd (main E tr0)))
            = [log_filename E, ''config.ini'', log_filename E]"
    if p: "p = ''config.ini''"
  proof -
    have m: "main E tr0 =
          (Exit 1,
           tr0 @ [Print ''Starting Excel to MySQL data transfer...'',
                  Log INFO ''Starting Excel to MySQL data transfer'',
                  FileWrite ''config.ini'' default_config_text,
                  Log INFO ''Created default config file: config.ini'',
                  Print ''Created default config file: config.ini'',
                  Print ''Please update the config file with your database credentials and try again.''])"
      using r[of "tr0 @ [Print ''Starting Excel to MySQL data transfer...'',
                  Log INFO ''Starting Excel to MySQL data transfer'']"]
      unfolding p by (simp add: main_def)
    show ?thesis unfolding m by (simp add: db_calls_append new_events_def)
  qed
  with r[of tr] default_config_text_eq show ?thesis by blast
qed

theorem first_run_writes_template_witness:
  "\<not> path_exists env_first_run ''config.ini''
   \<and> write_file env_first_run ''config.ini'' default_config_text = None
   \<and> fst (main env_first_run []) = Exit 1
   \<and> db_calls (snd (main env_first_run [])) = []
   \<and> written_paths env_first_run (new_events [] (snd (main env_first_run [])))
       = [log_filename env_first_run, ''config.ini'', log_filename env_first_run]"
proof -
  have e: "\<not> path_exists env_first_run ''config.ini''"
    "write_file env_first_run ''config.ini'' default_config_text = None"
    by (simp_all add: env_first_run_def env_ok_def)
  from first_run_writes_template [OF e, where ?tr0.0 = "[]" and tr = "[]"] e
  show ?thesis by (simp add: new_events_def)
qed

section \<open>Idempotent table creation and column alignment\<close>

lemma server_state_append:
  "server_state T (a @ b) = server_state (server_state T a) b"
  by (induction T a rule: server_state.induct) simp_all

lemma table_name_of_space: "table_name_of (tn @ CHR '' '' # rest) = table_name_of tn"
proof (induction tn)
  case Nil
  show ?case by (simp add: table_name_of_def)
next
  case (Cons c tn)
  then show ?case by (simp add: table_name_of_def)
qed

lemma create_table_sql_rest:
  "drop (length ''CREATE TABLE IF NOT EXISTS '') (create_table_sql tn cols) =
     tn @ CHR '' '' # ''(id INT AUTO_INCREMENT PRIMARY KEY, ''
        @ join '', '' (map (\<lambda>col. col @ '' TEXT'') cols) @ '')''"
  by (simp add: create_table_sql_def)

lemma create_table_sql_prefix:
  "prefix ''CREATE TABLE IF NOT EXISTS '' (create_table_sql tn cols)"
  by (simp add: create_table_sql_def)

lemma server_execute_create:
  "server_execute (create_table_sql tn cols) T =
     Inr (case T (table_name_of tn) of
            Some d \<Rightarrow> T
          | None \<Rightarrow> T(table_name_of tn \<mapsto>
                       drop (length (table_name_of tn))
                         (drop (length ''CREATE TABLE IF NOT EXISTS '') (create_table_sql tn cols))))"
proof -
  have n: "table_name_of (drop (length ''CREATE TABLE IF NOT EXISTS '') (create_table_sql tn cols))
             = table_name_of tn"
    unfolding create_table_sql_rest by (rule table_name_of_space)
  show ?thesis
    unfolding server_execute_def if_P[OF create_table_sql_prefix] Let_def n
    by (simp split: option.splits)
qed

lemma server_db_create: "server_db T0 h (Execute (create_table_sql tn cols) ps) = None"
  by (simp add: server_db_def server_execute_create)

lemma server_db_other:
  "server_db T0 h Cursor = None" "server_db T0 h Commit = None" "server_db T0 h Close = None"
  "server_db T0 h (Connect a b c d) = None"
  by (simp_all add: server_db_def)

lemma server_sync_succeeds:
  assumes "db E = server_db T0" "read_excel E f = Inr df"
    "sanitize_columns (df_columns df) = Inr cols"
  shows "create_table_if_not_exists E f tn tr =
           (Return (Some (df, cols)),
            tr @ [PrintInfo df, Log INFO ''DataFrame info: None'', DbCall Cursor,
                  DbCall (Execute (create_table_sql tn cols) []), DbCall Commit,
                  Log INFO (''Table '' @ tn @ '' created or already exists'')])"
  using assms
  by (simp add: create_table_if_not_exists_def create_table_body_def create_table_calls_def
      db_call_def server_db_create server_db_other)

lemma server_state_sync:
  "server_state T (tr @ [PrintInfo df, Log INFO i, DbCall Cursor,
                         DbCall (Execute (create_table_sql tn cols) []), DbCall Commit,
                         Log INFO j]) =
   (case server_state T tr (table_name_of tn) of
      Some d \<Rightarrow> server_state T tr
    | None \<Rightarrow> (server_state T tr)(table_name_of tn \<mapsto>
                  drop (length (table_name_of tn))
                    (drop (length ''CREATE TABLE IF NOT EXISTS '') (create_table_sql tn cols))))"
  unfolding server_state_append
  by (simp add: server_execute_create split: option.splits)

text \<open>
  C9. Against a server that reads \<^verbatim>\<open>CREATE TABLE IF NOT EXISTS\<close> as a no-op on an
  existing table: the statement the schema synchronizer sends begins with these words, and
  the commit call follows it at once, before the function returns. After a first call that
  succeeded the table exists; a second call for the same table name, whatever the sheet
  then holds, leaves every table of the server as it was, is not rejected by the server, and
  returns the dataset and column list whenever the sheet can be read and its headers are
  strings.
\<close>

theorem create_table_idempotent:
  "db E = server_db T0 \<Longrightarrow> db E' = server_db T0 \<Longrightarrow>
   create_table_if_not_exists E f tn tr = (Return (Some (df, cols)), tr1) \<Longrightarrow>
   create_table_if_not_exists E' f' tn tr1 = (r2, tr2) \<Longrightarrow>
     prefix ''CREATE TABLE IF NOT EXISTS '' (create_table_sql tn cols)
     \<and> tr1 = tr @ [PrintInfo df, Log INFO ''DataFrame info: None'', DbCall Cursor,
                   DbCall (Execute (create_table_sql tn cols) []), DbCall Commit,
                   Log INFO (''Table '' @ tn @ '' created or already exists'')]
     \<and> server_state T0 tr1 (table_name_of tn) \<noteq> None
     \<and> server_state T0 tr2 = server_state T0 tr1
     \<and> r2 \<noteq> Return None \<and> (\<forall>m. r2 \<noteq> Raise (DbError m))
     \<and> (\<forall>df' cols'. read_excel E' f' = Inr df' \<and> sanitize_columns (df_columns df') = Inr cols'
           \<longrightarrow> r2 = Return (Some (df', cols')))"
proof -
  assume E: "db E = server_db T0" and E': "db E' = server_db T0"
    and first: "create_table_if_not_exists E f tn tr = (Return (Some (df, cols)), tr1)"
    and second: "create_table_if_not_exists E' f' tn tr1 = (r2, tr2)"
  from create_table_cases[OF first]
  have tr1: "tr1 = tr @ [PrintInfo df, Log INFO ''DataFrame info: None'', DbCall Cursor,
                   DbCall (Execute (create_table_sql tn cols) []), DbCall Commit,
                   Log INFO (''Table '' @ tn @ '' created or already exists'')]"
    by auto
  have exists: "server_state T0 tr1 (table_name_of tn) \<noteq> None"
    unfolding tr1 server_state_sync by (simp split: option.splits)
  have rest: "server_state T0 tr2 = server_state T0 tr1 \<and> r2 \<noteq> Return None
      \<and> (\<forall>m. r2 \<noteq> Raise (DbError m))
      \<and> (\<forall>df' cols'. read_excel E' f' = Inr df' \<and> sanitize_columns (df_columns df') = Inr cols'
           \<longrightarrow> r2 = Return (Some (df', cols')))"
  proof (cases "read_excel E' f'")
    case (Inl msg)
    with second have "r2 = Raise (OtherError msg)" "tr2 = tr1"
      by (auto simp: create_table_if_not_exists_def create_table_body_def)
    with Inl show ?thesis by simp
  next
    case (Inr df')
    show ?thesis
    proof (cases "sanitize_columns (df_columns df')")
      case (Inl e)
      then obtain m where m: "e = OtherError m" using sanitize_columns_Inl by blast
      with Inl Inr second have "r2 = Raise (OtherError m)"
        "tr2 = tr1 @ [PrintInfo df', Log INFO ''DataFrame info: None'']"
        by (auto simp: create_table_if_not_exists_def create_table_body_def)
      with Inl Inr show ?thesis by (simp add: server_state_append)
    next
      case cols': (Inr cols')
      from second server_sync_succeeds[OF E' Inr cols', of tn tr1]
      have r2: "r2 = Return (Some (df', cols'))"
        and tr2: "tr2 = tr1 @ [PrintInfo df', Log INFO ''DataFrame info: None'', DbCall Cursor,
                  DbCall (Execute (create_table_sql tn cols') []), DbCall Commit,
                  Log INFO (''Table '' @ tn @ '' created or already exists'')]"
        by simp_all
      from exists obtain d where "server_state T0 tr1 (table_name_of tn) = Some d" by blast
      then have "server_state T0 tr2 = server_state T0 tr1"
        unfolding tr2 server_state_sync by simp
      with r2 Inr cols' show ?thesis by simp
    qed
  qed
  from create_table_sql_prefix tr1 exists rest show ?thesis by blast
qed

lemma env_server_facts:
  "db env_server = server_db (\<lambda>n. None)"
  "read_excel env_server f = Inr df_example"
  by (simp_all add: env_server_def env_ok_def)

theorem create_table_idempotent_witness:
  "fst (create_table_if_not_exists env_server ''google_form_responses.xlsx'' ''form_responses'' [])
     = Return (Some (df_example, cols_example))
   \<and> fst (create_table_if_not_exists env_server ''google_form_responses.xlsx'' ''form_responses''
           (snd (create_table_if_not_exists env_server ''google_form_responses.xlsx''
                   ''form_responses'' [])))
       = Return (Some (df_example, cols_example))
   \<and> server_state (\<lambda>n. None)
        (snd (create_table_if_not_exists env_server ''google_form_responses.xlsx'' ''form_responses''
           (snd (create_table_if_not_exists env_server ''google_form_responses.xlsx''
                   ''form_responses'' []))))
       = server_state (\<lambda>n. None)
          (snd (create_table_if_not_exists env_server ''google_form_responses.xlsx''
                  ''form_responses'' []))"
proof -
  let ?f = "''google_form_responses.xlsx''" and ?tn = "''form_responses''"
  let ?X = "create_table_if_not_exists env_server ?f ?tn []"
  let ?Y = "create_table_if_not_exists env_server ?f ?tn (snd ?X)"
  have x: "?X = (Return (Some (df_example, cols_example)), snd ?X)"
    using server_sync_succeeds[OF env_server_facts(1) env_server_facts(2) cols_example_sanitized,
        of ?f ?tn "[]"]
    by simp
  have y: "?Y = (fst ?Y, snd ?Y)" by simp
  from create_table_idempotent [OF env_server_facts(1) env_server_facts(1) x y]
  show ?thesis using x by (simp add: env_server_facts cols_example_sanitized)
qed


















end
